theory Spec2Isabelle
  imports Complex_Main "HOL-Library.Word"
begin

section \<open>Errors and outcomes\<close>

text \<open>
  The three error values of the package (\<^verbatim>\<open>ErrRange\<close>, \<^verbatim>\<open>ErrSyntax\<close>, \<^verbatim>\<open>ErrNotValid\<close>).
  A \<^verbatim>\<open>NumError\<close> also carries the name of the failing function and the input text; only
  its \<^verbatim>\<open>Err\<close> field is kept here, since no operation reads the other two.
\<close>

datatype error = ErrRange | ErrSyntax | ErrNotValid

text \<open>
  What a call of \<^verbatim>\<open>Add\<close> or \<^verbatim>\<open>Sub\<close> does: it returns \<^verbatim>\<open>nil\<close>, it returns an error, or
  the unsigned division of the carry step divides by zero and the Go runtime panics.
\<close>

datatype outcome = Success | Failure error | Panic

section \<open>The Decimal struct\<close>

type_synonym uint64 = "64 word"

text \<open>
  \<^verbatim>\<open>denominatorDigits\<close> is a Go \<^verbatim>\<open>int\<close>; it counts characters of an input string and
  cannot reach the bounds of its type, so it is an unbounded integer here.
\<close>

record Decimal =
  Valid :: bool
  Negative :: bool
  numerator :: uint64
  denominator :: uint64
  denominatorDigits :: int

definition zeroDecimal :: Decimal where
  "zeroDecimal = \<lparr>Valid = False, Negative = False, numerator = 0, denominator = 0,
                   denominatorDigits = 0\<rparr>"

definition DecimalSeparator :: char where
  "DecimalSeparator = CHR ''.''"

section \<open>The floating-point library calls\<close>

text \<open>
  Two expressions of the source go through \<^verbatim>\<open>float64\<close>:
  \<^item> \<^verbatim>\<open>int(math.Floor(math.Log10(float64(n))) + 1)\<close> in \<^verbatim>\<open>printedLength\<close>;
  \<^item> \<^verbatim>\<open>uint64(math.Pow10(k))\<close> in \<^verbatim>\<open>Add\<close> and \<^verbatim>\<open>Sub\<close>.
  The first is a parameter of the model (\<open>log10len\<close>): what is proved for every
  \<open>fpenv\<close> holds whatever the expression computes, and the instance \<open>goFp\<close> below
  computes it as the Go library does.
  The second is exact for \<open>0 \<le> k \<le> 19\<close>, where \<open>10 ^ k\<close> is a \<^verbatim>\<open>float64\<close> below
  \<open>2 ^ 64\<close>; for \<open>k < 0\<close> the float is below one and truncates to zero; for
  \<open>20 \<le> k\<close> the float does not fit \<^verbatim>\<open>uint64\<close> and Go leaves the result of the
  conversion to the implementation, so it is a parameter too (\<open>pow10big\<close>).
\<close>

record fpenv =
  log10len :: "uint64 \<Rightarrow> int"
  pow10big :: "int \<Rightarrow> uint64"

definition pow10 :: "fpenv \<Rightarrow> int \<Rightarrow> uint64" where
  "pow10 fp k = (if k < 0 then 0 else if k \<le> 19 then 10 ^ nat k else pow10big fp k)"

section \<open>Digit helpers\<close>

definition printedLength :: "fpenv \<Rightarrow> uint64 \<Rightarrow> int" where
  "printedLength fp n = (if n = 0 then 1 else log10len fp n)"

text \<open>The loop of \<^verbatim>\<open>simplifyNumber\<close>: \<^verbatim>\<open>for n >= 10 && n%10 == 0 { n /= 10 }\<close>.\<close>

function simplifyLoop :: "uint64 \<Rightarrow> uint64" where
  "simplifyLoop n = (if n \<ge> 10 \<and> n mod 10 = 0 then simplifyLoop (n div 10) else n)"
  by pat_completeness auto
termination
proof (relation "measure unat")
  show "wf (measure (unat :: uint64 \<Rightarrow> nat))" by simp
next
  fix n :: uint64
  assume a: "10 \<le> n \<and> n mod 10 = 0"
  then have "10 \<le> unat n" by (simp add: word_le_nat_alt)
  then have "unat n div 10 < unat n" by simp
  then show "(n div 10, n) \<in> measure unat" by (simp add: unat_div)
qed

declare simplifyLoop.simps [simp del]

definition simplifyNumber :: "fpenv \<Rightarrow> uint64 \<Rightarrow> uint64 \<times> int" where
  "simplifyNumber fp n = (simplifyLoop n, printedLength fp (simplifyLoop n))"

section \<open>Parsing\<close>

text \<open>
  The loop of \<^verbatim>\<open>ParseDecimal\<close> over the bytes after the sign. Its state is the Decimal
  under construction and the local \<^verbatim>\<open>denominatorDigits\<close> (\<open>-1\<close> until the separator
  is seen).
\<close>

fun parseLoop :: "string \<Rightarrow> Decimal \<Rightarrow> int \<Rightarrow> error + (Decimal \<times> int)" where
  "parseLoop [] dec dd = Inr (dec, dd)"
| "parseLoop (d # s) dec dd =
     (if (48::nat) \<le> of_char d \<and> of_char d \<le> (57::nat) then
        (let v = (of_char d - 48 :: uint64) in
         if dd = -1 then
           (let newN = numerator dec * 10 + v in
            if newN < numerator dec then Inl ErrRange
            else parseLoop s (dec\<lparr>numerator := newN, Valid := True\<rparr>) dd)
         else
           (let dd' = dd + 1; newN = denominator dec * 10 + v in
            if newN < denominator dec then Inl ErrRange
            else parseLoop s (dec\<lparr>denominator := newN, Valid := True\<rparr>) dd'))
      else if d = DecimalSeparator then
        (if dd \<noteq> -1 then Inl ErrSyntax else parseLoop s dec 0)
      else Inl ErrSyntax)"

definition ParseDecimal :: "string \<Rightarrow> error + Decimal" where
  "ParseDecimal s =
     (if length s = 0 then Inl ErrSyntax
      else
        (let (i, decimal) =
               (if hd s = CHR ''+'' then (1::nat, zeroDecimal)
                else if hd s = CHR ''-'' then (1, zeroDecimal\<lparr>Negative := True\<rparr>)
                else (0, zeroDecimal))
         in case parseLoop (drop i s) decimal (-1) of
              Inl e \<Rightarrow> Inl e
            | Inr (decimal, dd) \<Rightarrow>
                if Valid decimal then
                  (let decimal =
                         (if numerator decimal = 0 \<and> denominator decimal = 0 \<and> Negative decimal
                          then decimal\<lparr>Negative := False\<rparr> else decimal);
                       decimal =
                         (if dd \<noteq> -1
                          then decimal\<lparr>denominatorDigits := dd\<rparr> else decimal)
                   in Inr decimal)
                else Inl ErrSyntax))"

section \<open>Comparison\<close>

definition Cmp :: "Decimal \<Rightarrow> Decimal \<Rightarrow> int" where
  "Cmp d1 d2 =
     (if Negative d1 = Negative d2 then
        (if numerator d1 = numerator d2 \<and> denominator d1 = denominator d2 then 0
         else
           (let r = (if numerator d1 > numerator d2
                        \<or> numerator d1 = numerator d2 \<and> denominator d1 > denominator d2
                     then 1 else -1)
            in if Negative d1 then - r else r))
      else (if Negative d1 then - 1 else 1))"

section \<open>Addition and subtraction on the heap\<close>

text \<open>
  \<^verbatim>\<open>Add\<close> and \<^verbatim>\<open>Sub\<close> take two pointers and write through both, so the objects live
  in a store. \<^verbatim>\<open>d1copy\<close> is a struct value local to \<^verbatim>\<open>Add\<close>, not a store cell.
\<close>

type_synonym ref = nat
type_synonym heap = "ref \<Rightarrow> Decimal"

text \<open>The end of \<^verbatim>\<open>Add\<close>: zero is not negative, simplify, \<^verbatim>\<open>*d1 = d1copy\<close>.\<close>

definition addCommit :: "fpenv \<Rightarrow> ref \<Rightarrow> heap \<Rightarrow> Decimal \<Rightarrow> outcome \<times> heap" where
  "addCommit fp p h d1copy =
     (let d1copy = (if numerator d1copy = 0 \<and> denominator d1copy = 0 \<and> Negative d1copy
                    then d1copy\<lparr>Negative := False\<rparr> else d1copy);
          sn = simplifyNumber fp (denominator d1copy);
          d1copy = d1copy\<lparr>denominator := fst sn, denominatorDigits := snd sn\<rparr>
      in (Success, h(p := d1copy)))"

text \<open>The branch \<^verbatim>\<open>d1copy.Negative == d2.Negative\<close> of \<^verbatim>\<open>Add\<close>, with the carry.\<close>

definition addSameSign ::
  "fpenv \<Rightarrow> ref \<Rightarrow> ref \<Rightarrow> heap \<Rightarrow> Decimal \<Rightarrow> uint64 \<Rightarrow> int \<Rightarrow> outcome \<times> heap" where
  "addSameSign fp p q h d1copy d2Denominator d2DenomDigits =
     (let d1copy = d1copy\<lparr>denominator := denominator d1copy + d2Denominator\<rparr>;
          d1copy = d1copy\<lparr>numerator := numerator d1copy + numerator (h q)\<rparr>;
          d1DigitsNew = printedLength fp (denominator d1copy)
      in if d1DigitsNew > d2DenomDigits then
           (let md = pow10 fp (denominatorDigits d1copy);
                d1Numerator = numerator d1copy
            in if md = 0 then (Panic, h)
               else
                 (let d1copy = d1copy\<lparr>numerator := numerator d1copy + denominator d1copy div md\<rparr>;
                      d1copy = d1copy\<lparr>denominator := denominator d1copy mod md\<rparr>
                  in if numerator d1copy < d1Numerator then (Failure ErrRange, h)
                     else addCommit fp p h d1copy))
         else addCommit fp p h d1copy)"

text \<open>
  The other branch of \<^verbatim>\<open>Add\<close>: both signs are cleared (the one of \<^verbatim>\<open>d2\<close> in the
  store), the magnitudes compared with \<^verbatim>\<open>Cmp\<close>, and both signs written back.
\<close>

definition addDifferentSign ::
  "fpenv \<Rightarrow> ref \<Rightarrow> ref \<Rightarrow> heap \<Rightarrow> Decimal \<Rightarrow> uint64 \<Rightarrow> outcome \<times> heap" where
  "addDifferentSign fp p q h d1copy d2Denominator =
     (let neg1 = Negative d1copy;
          neg2 = Negative (h q);
          d1copy = d1copy\<lparr>Negative := False\<rparr>;
          h = h(q := (h q)\<lparr>Negative := False\<rparr>);
          ge = (Cmp d1copy (h q) \<ge> 0);
          d1copy =
            (if ge then
               (let d1copy = d1copy\<lparr>denominator := denominator d1copy - d2Denominator\<rparr>
                in d1copy\<lparr>numerator := numerator d1copy - numerator (h q)\<rparr>)
             else
               (let d1copy = d1copy\<lparr>denominator := d2Denominator - denominator d1copy\<rparr>
                in d1copy\<lparr>numerator := numerator (h q) - numerator d1copy\<rparr>));
          neg1 = (if ge then neg1 else \<not> neg1);
          d1copy = d1copy\<lparr>Negative := neg1\<rparr>;
          h = h(q := (h q)\<lparr>Negative := neg2\<rparr>)
      in addCommit fp p h d1copy)"

text \<open>
  \<^verbatim>\<open>Add\<close>: validity (\<^verbatim>\<open>!d1.Valid || !d2.Valid\<close>, left to right), the two bounds checks
  on the raw fields, the copy, the alignment of the fractional widths, then one of the
  two branches.
\<close>

definition Add :: "fpenv \<Rightarrow> ref \<Rightarrow> ref \<Rightarrow> heap \<Rightarrow> outcome \<times> heap" where
  "Add fp p q h =
     (if \<not> Valid (h p) then (Failure ErrNotValid, h)
      else if \<not> Valid (h q) then (Failure ErrNotValid, h)
      else if denominator (h p) + denominator (h q) < denominator (h p)
        then (Failure ErrRange, h)
      else if numerator (h p) + numerator (h q) < numerator (h p)
        then (Failure ErrRange, h)
      else
        (let d1copy = h p;
             d2Denominator = denominator (h q);
             d2DenomDigits = denominatorDigits (h q);
             gt = (denominatorDigits d1copy > denominatorDigits (h q));
             lt = (\<not> gt \<and> denominatorDigits (h q) > denominatorDigits d1copy);
             d2Denominator =
               (if gt then d2Denominator
                             * pow10 fp (denominatorDigits d1copy - denominatorDigits (h q))
                else d2Denominator);
             d2DenomDigits = (if gt then denominatorDigits d1copy else d2DenomDigits);
             d1copy =
               (if lt then
                  (let d1copy = d1copy\<lparr>denominator := denominator d1copy
                            * pow10 fp (denominatorDigits (h q) - denominatorDigits d1copy)\<rparr>
                   in d1copy\<lparr>denominatorDigits := denominatorDigits (h q)\<rparr>)
                else d1copy)
         in if Negative d1copy = Negative (h q)
            then addSameSign fp p q h d1copy d2Denominator d2DenomDigits
            else addDifferentSign fp p q h d1copy d2Denominator))"

text \<open>
  The branch of \<^verbatim>\<open>Sub\<close> for two non-negative operands. It works on \<^verbatim>\<open>d1\<close> in place:
  every assignment is a store update, and every read of \<^verbatim>\<open>d2\<close> sees the store as
  it is at that statement.
\<close>

definition subInPlace :: "fpenv \<Rightarrow> ref \<Rightarrow> ref \<Rightarrow> heap \<Rightarrow> outcome \<times> heap" where
  "subInPlace fp p q h =
     (let d2Denominator = denominator (h q);
          gt = (denominatorDigits (h p) > denominatorDigits (h q));
          lt = (\<not> gt \<and> denominatorDigits (h q) > denominatorDigits (h p));
          d2Denominator =
            (if gt then d2Denominator
                          * pow10 fp (denominatorDigits (h p) - denominatorDigits (h q))
             else d2Denominator);
          h = (if lt then
                 (let h = h(p := (h p)\<lparr>denominator := denominator (h p)
                            * pow10 fp (denominatorDigits (h q) - denominatorDigits (h p))\<rparr>)
                  in h(p := (h p)\<lparr>denominatorDigits := denominatorDigits (h q)\<rparr>))
               else h);
          h = (if Cmp (h p) (h q) \<ge> 0 then
                 (let d1Denominator = denominator (h p);
                      h = h(p := (h p)\<lparr>denominator := denominator (h p) - denominator (h q)\<rparr>);
                      h = h(p := (h p)\<lparr>numerator := numerator (h p) - numerator (h q)\<rparr>)
                  in if denominator (h p) > d1Denominator then
                       (let h = h(p := (h p)\<lparr>denominator :=
                                   pow10 fp (denominatorDigits (h p))
                                     - (18446744073709551615 - denominator (h p)) - 1\<rparr>)
                        in h(p := (h p)\<lparr>numerator := numerator (h p) - 1\<rparr>))
                     else h)
               else
                 (let h = h(p := (h p)\<lparr>denominator := d2Denominator - denominator (h p)\<rparr>);
                      h = h(p := (h p)\<lparr>numerator := numerator (h q) - numerator (h p)\<rparr>)
                  in h(p := (h p)\<lparr>Negative := \<not> Negative (h p)\<rparr>)));
          sn = simplifyNumber fp (denominator (h p))
      in (Success, h(p := (h p)\<lparr>denominator := fst sn, denominatorDigits := snd sn\<rparr>)))"

text \<open>
  \<^verbatim>\<open>Sub\<close>. In the second branch the sign of \<^verbatim>\<open>d2\<close> is overwritten with the sign of
  \<^verbatim>\<open>d1\<close>, \<^verbatim>\<open>Add\<close> is called, and the sign is written back after \<^verbatim>\<open>Add\<close> returns;
  a panic in \<^verbatim>\<open>Add\<close> unwinds past that assignment.
\<close>

definition Sub :: "fpenv \<Rightarrow> ref \<Rightarrow> ref \<Rightarrow> heap \<Rightarrow> outcome \<times> heap" where
  "Sub fp p q h =
     (if \<not> Valid (h p) then (Failure ErrNotValid, h)
      else if \<not> Valid (h q) then (Failure ErrNotValid, h)
      else if \<not> Negative (h p) \<and> \<not> Negative (h q) then subInPlace fp p q h
      else
        (let d2Neg = Negative (h q);
             h = h(q := (h q)\<lparr>Negative := Negative (h p)\<rparr>);
             r = Add fp p q h
         in if fst r = Panic then r
            else (fst r, (snd r)(q := (snd r q)\<lparr>Negative := d2Neg\<rparr>))))"

section \<open>Rendering\<close>

text \<open>
  \<^verbatim>\<open>String\<close> builds the format \<^verbatim>\<open>%d%c%0Nd\<close> with \<^verbatim>\<open>N = denominatorDigits\<close> and
  applies it. \<open>fmtD\<close> is the verb \<^verbatim>\<open>%d\<close> on an unsigned value, \<open>fmt0D\<close> the verb
  \<^verbatim>\<open>%0Nd\<close>: the same digits, padded on the left with zeros to width \<open>N\<close>, for a
  width that is not negative (a digit count never is).
\<close>

function fmtD :: "uint64 \<Rightarrow> string" where
  "fmtD n = (if n < 10 then [char_of (48 + uint n)]
             else fmtD (n div 10) @ [char_of (48 + uint (n mod 10))])"
  by pat_completeness auto
termination
proof (relation "measure unat")
  show "wf (measure (unat :: uint64 \<Rightarrow> nat))" by simp
next
  fix n :: uint64
  assume "\<not> n < 10"
  then have "10 \<le> unat n" by (simp add: word_less_nat_alt)
  then have "unat n div 10 < unat n" by simp
  then show "(n div 10, n) \<in> measure unat" by (simp add: unat_div)
qed

declare fmtD.simps [simp del]

definition fmt0D :: "int \<Rightarrow> uint64 \<Rightarrow> string" where
  "fmt0D w n = replicate (nat w - length (fmtD n)) (CHR ''0'') @ fmtD n"

definition String :: "Decimal \<Rightarrow> string" where
  "String d =
     (if Negative d then ''-'' else []) @ fmtD (numerator d) @ [DecimalSeparator]
       @ fmt0D (denominatorDigits d) (denominator d)"

section \<open>Reading a Decimal as a number\<close>

text \<open>
  The number a Decimal stands for:
  \<open>sign * (numerator + denominator / 10 ^ denominatorDigits)\<close>.
\<close>

definition valueOf :: "Decimal \<Rightarrow> rat" where
  "valueOf d =
     (if Negative d then - 1 else 1)
       * (of_int (uint (numerator d))
           + of_int (uint (denominator d)) / 10 ^ nat (denominatorDigits d))"

text \<open>
  An instance of the floating-point parameters in which \<open>log10len\<close> is the exact number
  of decimal digits, and an out-of-range conversion gives \<open>2 ^ 63\<close>. It is the function
  \<^verbatim>\<open>printedLength\<close> is named after, not the one the code computes: the two differ
  at \<open>10 ^ 15\<close> and at \<open>10 ^ 19 - 1\<close>, among others. It serves as an instance of the
  parameters; at every input where a theorem evaluates \<^verbatim>\<open>Add\<close> or \<^verbatim>\<open>Sub\<close> with it,
  the code's own expression \<open>goFp\<close> gives the same outcome and the same stored result
  (\<open>inexact_results_with_goFp\<close>, \<open>witness_results_with_goFp\<close>).
\<close>

definition exactFp :: fpenv where
  "exactFp = \<lparr>log10len = (\<lambda>n. int (length (fmtD n))),
               pow10big = (\<lambda>k. 9223372036854775808)\<rparr>"

text \<open>
  What is certain of \<open>log10len\<close> whatever the rounding: a non-zero 64-bit value has
  between 1 and 20 printed digits.
\<close>

definition digitRange :: "fpenv \<Rightarrow> bool" where
  "digitRange fp = (\<forall>n. n \<noteq> 0 \<longrightarrow> 1 \<le> log10len fp n \<and> log10len fp n \<le> 20)"

text \<open>A store holding \<open>a\<close> at address 0 and \<open>b\<close> at address 1.\<close>

definition twoCells :: "Decimal \<Rightarrow> Decimal \<Rightarrow> heap" where
  "twoCells a b = (\<lambda>r. if r = 0 then a else if r = 1 then b else zeroDecimal)"

section \<open>The float64 arithmetic of printedLength\<close>

text \<open>
  A finite \<^verbatim>\<open>float64\<close> is a pair \<open>(m, e)\<close> standing for \<open>m * 2 ^ e\<close>, with at most 53
  bits in \<open>m\<close>. Every operation computes the exact result and rounds it to 53 bits, to
  nearest and ties to even, as IEEE 754 does; each operation is rounded on its own, as
  the compiler does on amd64 (no fused multiply-add). The values that occur here are far
  from overflow and underflow, and neither infinities nor NaN occur.
\<close>

type_synonym float64 = "int \<times> int"

function bitLength :: "int \<Rightarrow> int" where
  "bitLength m = (if m \<le> 0 then 0 else 1 + bitLength (m div 2))"
  by pat_completeness auto
termination
  by (relation "measure nat") auto

declare bitLength.simps [simp del]

definition roundNearestEven :: "int \<Rightarrow> int \<Rightarrow> float64" where
  "roundNearestEven m e =
     (let b = bitLength (abs m) in
      if b \<le> 53 then (m, e)
      else
        (let sh = nat (b - 53);
             q = abs m div 2 ^ sh;
             r = abs m mod 2 ^ sh;
             half = 2 ^ (sh - 1);
             q' = (if r > half \<or> (r = half \<and> q mod 2 = 1) then q + 1 else q)
         in (sgn m * q', e + int sh)))"

text \<open>The conversion \<^verbatim>\<open>float64(n)\<close> of an unsigned 64-bit integer.\<close>

definition toFloat64 :: "uint64 \<Rightarrow> float64" where
  "toFloat64 n = roundNearestEven (uint n) 0"

definition fmul :: "float64 \<Rightarrow> float64 \<Rightarrow> float64" where
  "fmul x y = roundNearestEven (fst x * fst y) (snd x + snd y)"

definition fadd :: "float64 \<Rightarrow> float64 \<Rightarrow> float64" where
  "fadd x y =
     (let e = min (snd x) (snd y)
      in roundNearestEven (fst x * 2 ^ nat (snd x - e) + fst y * 2 ^ nat (snd y - e)) e)"

definition fsub :: "float64 \<Rightarrow> float64 \<Rightarrow> float64" where
  "fsub x y = fadd x (- fst y, snd y)"

text \<open>
  The quotient is computed to at least 56 bits with a sticky bit below them, which rounds
  as the exact quotient does. The divisor is never zero here.
\<close>

definition fdiv :: "float64 \<Rightarrow> float64 \<Rightarrow> float64" where
  "fdiv x y =
     (let bx = bitLength (abs (fst x));
          by = bitLength (abs (fst y));
          d = by - bx + 56;
          k = nat (max 0 d);
          n = abs (fst x) * 2 ^ k;
          q = n div abs (fst y);
          sticky = (if n mod abs (fst y) = 0 then 0 else 1)
      in roundNearestEven (sgn (fst x) * sgn (fst y) * (2 * q + sticky))
           (snd x - snd y - int k - 1))"

definition flt :: "float64 \<Rightarrow> float64 \<Rightarrow> bool" where
  "flt x y =
     (let e = min (snd x) (snd y)
      in fst x * 2 ^ nat (snd x - e) < fst y * 2 ^ nat (snd y - e))"

text \<open>\<^verbatim>\<open>math.Frexp\<close>: the fraction in \<open>[1/2, 1)\<close> and the exponent.\<close>

definition Frexp :: "float64 \<Rightarrow> float64 \<times> int" where
  "Frexp x = (let b = bitLength (abs (fst x)) in ((fst x, - b), b + snd x))"

definition Floor :: "float64 \<Rightarrow> int" where
  "Floor x = (if snd x \<ge> 0 then fst x * 2 ^ nat (snd x) else fst x div 2 ^ nat (- snd x))"

text \<open>
  \<^verbatim>\<open>math.Log\<close>, for a finite argument above zero (the argument here is \<^verbatim>\<open>float64(n)\<close>
  with \<open>n \<ge> 1\<close>, so its special cases are not reached):
  \<^verbatim>\<open>
  f1, ki := Frexp(x)
  if f1 < Sqrt2/2 { f1 *= 2; ki-- }
  f := f1 - 1
  k := float64(ki)
  s := f / (2 + f)
  s2 := s * s
  s4 := s2 * s2
  t1 := s2 * (L1 + s4*(L3+s4*(L5+s4*L7)))
  t2 := s4 * (L2 + s4*(L4+s4*L6))
  R := t1 + t2
  hfsq := 0.5 * f * f
  return k*Ln2Hi - ((hfsq - (s*(hfsq+R) + k*Ln2Lo)) - f)
  \<close>
  The constants are the \<^verbatim>\<open>float64\<close> values of the library's literals:
  \<^verbatim>\<open>Ln2Hi\<close> is \<^verbatim>\<open>0x3fe62e42fee00000\<close>, \<^verbatim>\<open>Ln2Lo\<close> \<^verbatim>\<open>0x3dea39ef35793c76\<close>,
  \<^verbatim>\<open>L1\<close> \<^verbatim>\<open>0x3fe5555555555593\<close>, \<^verbatim>\<open>L2\<close> \<^verbatim>\<open>0x3fd999999997fa04\<close>,
  \<^verbatim>\<open>L3\<close> \<^verbatim>\<open>0x3fd2492494229359\<close>, \<^verbatim>\<open>L4\<close> \<^verbatim>\<open>0x3fcc71c51d8e78af\<close>,
  \<^verbatim>\<open>L5\<close> \<^verbatim>\<open>0x3fc7466496cb03de\<close>, \<^verbatim>\<open>L6\<close> \<^verbatim>\<open>0x3fc39a09d078c69f\<close>,
  \<^verbatim>\<open>L7\<close> \<^verbatim>\<open>0x3fc2f112df3e5244\<close>, and \<^verbatim>\<open>Sqrt2/2\<close> \<^verbatim>\<open>0x3fe6a09e667f3bcd\<close>.
\<close>

definition Log :: "float64 \<Rightarrow> float64" where
  "Log x =
     (let Ln2Hi = (2977044471, - 32);
          Ln2Lo = (3691024475790907, - 84);
          L1 = (6004799503160723, - 53);
          L2 = (1801439850921601, - 52);
          L3 = (5146971033736025, - 54);
          L4 = (8006390766270639, - 55);
          L5 = (3275661152453103, - 54);
          L6 = (5517391500461727, - 55);
          L7 = (1332903234475153, - 53);
          f1 = fst (Frexp x);
          ki = snd (Frexp x);
          lo = flt f1 (6369051672525773, - 53);
          f1 = (if lo then fmul f1 (2, 0) else f1);
          ki = (if lo then ki - 1 else ki);
          f = fsub f1 (1, 0);
          k = (ki, 0);
          s = fdiv f (fadd (2, 0) f);
          s2 = fmul s s;
          s4 = fmul s2 s2;
          t1 = fmul s2 (fadd L1 (fmul s4 (fadd L3 (fmul s4 (fadd L5 (fmul s4 L7))))));
          t2 = fmul s4 (fadd L2 (fmul s4 (fadd L4 (fmul s4 L6))));
          R = fadd t1 t2;
          hfsq = fmul (fmul (1, - 1) f) f
      in fsub (fmul k Ln2Hi)
           (fsub (fsub hfsq (fadd (fmul s (fadd hfsq R)) (fmul k Ln2Lo))) f))"

text \<open>
  \<^verbatim>\<open>math.Log10(x)\<close> is \<^verbatim>\<open>math.Log(x) * (1/Ln10)\<close>, and \<^verbatim>\<open>1/Ln10\<close> as a \<^verbatim>\<open>float64\<close> is
  \<^verbatim>\<open>0x3fdbcb7b1526e50e\<close>.
\<close>

definition Log10 :: "float64 \<Rightarrow> float64" where
  "Log10 x = fmul (Log x) (3911776933737095, - 53)"

text \<open>
  The expression \<^verbatim>\<open>int(math.Floor(math.Log10(float64(n))) + 1)\<close> of \<^verbatim>\<open>printedLength\<close>.
  The floor is an integer of small size, so adding one to it as a float and converting
  is adding one to it as an integer.
\<close>

definition goLog10Len :: "uint64 \<Rightarrow> int" where
  "goLog10Len n = Floor (Log10 (toFloat64 n)) + 1"

text \<open>
  The floating-point parameters as the code computes them; an out-of-range conversion
  gives \<open>2 ^ 63\<close>, as on amd64.
\<close>

definition goFp :: fpenv where
  "goFp = \<lparr>log10len = goLog10Len, pow10big = (\<lambda>k. 9223372036854775808)\<rparr>"

section \<open>The carry step in the words of the specification\<close>

text \<open>
  The aligned digit count of two operands is the larger of their fractional widths; the
  operand with the smaller width has its fractional part scaled by ten to the difference;
  the fractional sum is the sum of the two aligned fractional parts, in 64 bits.
\<close>

definition alignedDigits :: "Decimal \<Rightarrow> Decimal \<Rightarrow> int" where
  "alignedDigits a b = max (denominatorDigits a) (denominatorDigits b)"

definition fractionalSum :: "Decimal \<Rightarrow> Decimal \<Rightarrow> uint64" where
  "fractionalSum a b =
     denominator a * 10 ^ nat (alignedDigits a b - denominatorDigits a)
       + denominator b * 10 ^ nat (alignedDigits a b - denominatorDigits b)"

text \<open>The two bounds checks at the head of \<^verbatim>\<open>Add\<close>, on the fields as stored.\<close>

definition rawSumsWrap :: "Decimal \<Rightarrow> Decimal \<Rightarrow> bool" where
  "rawSumsWrap a b =
     (denominator a + denominator b < denominator a \<or> numerator a + numerator b < numerator a)"

text \<open>
  The carry: the quotient of the fractional sum by \<open>10 ^ aligned\<close> goes into the integer
  sum and the remainder stays as the fractional part, at the aligned width.
\<close>

definition carried :: "Decimal \<Rightarrow> Decimal \<Rightarrow> Decimal" where
  "carried a b =
     (let k = alignedDigits a b; s = fractionalSum a b; n = numerator a + numerator b
      in a\<lparr>numerator := n + s div 10 ^ nat k, denominator := s mod 10 ^ nat k,
            denominatorDigits := k\<rparr>)"

text \<open>A valid Decimal with the given sign, integer part, fractional part and width.\<close>

definition mkDecimal :: "bool \<Rightarrow> uint64 \<Rightarrow> uint64 \<Rightarrow> int \<Rightarrow> Decimal" where
  "mkDecimal neg n d k =
     \<lparr>Valid = True, Negative = neg, numerator = n, denominator = d, denominatorDigits = k\<rparr>"

section \<open>What Add and Sub leave in the store\<close>

lemma addCommit_Success: "fst (addCommit fp p h c) = Success"
  by (simp add: addCommit_def Let_def)

lemma addCommit_other: "r \<noteq> p \<Longrightarrow> snd (addCommit fp p h c) r = h r"
  by (simp add: addCommit_def Let_def)


lemma addSameSign_cases:
  "addSameSign fp p q h c x k = (Panic, h) \<or> addSameSign fp p q h c x k = (Failure ErrRange, h)
   \<or> (\<exists>c'. addSameSign fp p q h c x k = addCommit fp p h c')"
  unfolding addSameSign_def Let_def by (simp split: if_splits) blast

text \<open>Clearing the sign of \<^verbatim>\<open>d2\<close> and writing the saved sign back gives the store back.\<close>

lemma restore_sign:
  "(h(q := (h q)\<lparr>Negative := False\<rparr>))
     (q := ((h(q := (h q)\<lparr>Negative := False\<rparr>)) q)\<lparr>Negative := Negative (h q)\<rparr>) = h"
  by (rule ext) simp

lemma addDifferentSign_commit:
  "\<exists>c'. addDifferentSign fp p q h c x = addCommit fp p h c'"
  unfolding addDifferentSign_def Let_def by (simp add: restore_sign) blast

text \<open>
  \<^verbatim>\<open>Add\<close> ends in one of three ways: a panic or an error with the store as it was, or
  the commit of some staged copy on the store as it was.
\<close>

lemma Add_cases:
  "Add fp p q h = (Panic, h) \<or> (\<exists>e. Add fp p q h = (Failure e, h))
   \<or> (\<exists>c'. Add fp p q h = addCommit fp p h c')"
  unfolding Add_def Let_def
  using addSameSign_cases addDifferentSign_commit
  by (simp split: if_splits) metis

lemma Add_not_Success_heap: "fst (Add fp p q h) \<noteq> Success \<Longrightarrow> snd (Add fp p q h) = h"
  using Add_cases [of fp p q h] addCommit_Success by (metis snd_conv)

lemma Add_other: "r \<noteq> p \<Longrightarrow> snd (Add fp p q h) r = h r"
  using Add_cases [of fp p q h] addCommit_other by (metis snd_conv)


lemma subInPlace_Success: "fst (subInPlace fp p q h) = Success"
  by (simp add: subInPlace_def Let_def)

lemma subInPlace_other: "r \<noteq> p \<Longrightarrow> snd (subInPlace fp p q h) r = h r"
  by (simp add: subInPlace_def Let_def)


text \<open>The delegating branch of \<^verbatim>\<open>Sub\<close>, with the intermediate store named.\<close>

lemma Sub_delegates:
  assumes "Valid (h p)" "Valid (h q)" "Negative (h p) \<or> Negative (h q)"
  shows "Sub fp p q h =
     (let h1 = h(q := (h q)\<lparr>Negative := Negative (h p)\<rparr>) in
      if fst (Add fp p q h1) = Panic then Add fp p q h1
      else (fst (Add fp p q h1),
            (snd (Add fp p q h1))(q := (snd (Add fp p q h1) q)\<lparr>Negative := Negative (h q)\<rparr>)))"
  using assms by (auto simp: Sub_def Let_def)

lemma Sub_Failure_receiver:
  assumes "fst (Sub fp p q h) = Failure e"
  shows "snd (Sub fp p q h) p = h p"
proof (cases "Valid (h p) \<and> Valid (h q)")
  case False
  then show ?thesis by (auto simp: Sub_def)
next
  case valid: True
  show ?thesis
  proof (cases "Negative (h p) \<or> Negative (h q)")
    case False
    with valid assms subInPlace_Success [of fp p q h] show ?thesis
      by (simp add: Sub_def)
  next
    case True
    define h1 where "h1 = h(q := (h q)\<lparr>Negative := Negative (h p)\<rparr>)"
    have S: "Sub fp p q h =
        (if fst (Add fp p q h1) = Panic then Add fp p q h1
         else (fst (Add fp p q h1),
               (snd (Add fp p q h1))(q := (snd (Add fp p q h1) q)\<lparr>Negative := Negative (h q)\<rparr>)))"
      using valid True Sub_delegates [of h p q fp] by (simp add: Let_def h1_def)
    from assms S have f: "fst (Add fp p q h1) = Failure e"
      by (auto split: if_splits)
    then have "snd (Add fp p q h1) = h1"
      by (intro Add_not_Success_heap) simp
    with S f show ?thesis by (simp add: h1_def)
  qed
qed

lemma Sub_other:
  assumes "r \<noteq> p" "fst (Sub fp p q h) \<noteq> Panic"
  shows "snd (Sub fp p q h) r = h r"
proof (cases "Valid (h p) \<and> Valid (h q)")
  case False
  then show ?thesis by (auto simp: Sub_def)
next
  case valid: True
  show ?thesis
  proof (cases "Negative (h p) \<or> Negative (h q)")
    case False
    with valid assms subInPlace_other [of r p fp q h] show ?thesis
      by (simp add: Sub_def)
  next
    case True
    define h1 where "h1 = h(q := (h q)\<lparr>Negative := Negative (h p)\<rparr>)"
    have S: "Sub fp p q h =
        (if fst (Add fp p q h1) = Panic then Add fp p q h1
         else (fst (Add fp p q h1),
               (snd (Add fp p q h1))(q := (snd (Add fp p q h1) q)\<lparr>Negative := Negative (h q)\<rparr>)))"
      using valid True Sub_delegates [of h p q fp] by (simp add: Let_def h1_def)
    from assms S have np: "fst (Add fp p q h1) \<noteq> Panic"
      by (auto split: if_splits)
    have "snd (Add fp p q h1) r = h1 r"
      using assms(1) by (rule Add_other)
    with S np show ?thesis by (auto simp: h1_def)
  qed
qed


section \<open>Printed digits\<close>





lemma printedLength_range: "digitRange fp \<Longrightarrow> 1 \<le> printedLength fp n \<and> printedLength fp n \<le> 20"
  by (simp add: digitRange_def printedLength_def)



section \<open>What the parser returns\<close>

text \<open>
  A Decimal returned by \<^verbatim>\<open>ParseDecimal\<close> is valid and its digit count is not negative:
  the local counter starts at \<open>-1\<close>, is set to 0 at the separator and only grows.
\<close>

lemma parseLoop_digits:
  "parseLoop s dec dd = Inr (dec', dd') \<Longrightarrow> - 1 \<le> dd \<Longrightarrow>
     - 1 \<le> dd' \<and> denominatorDigits dec' = denominatorDigits dec"
proof (induction s arbitrary: dec dd)
  case Nil
  then show ?case by simp
next
  case (Cons d s)
  then show ?case
    by (auto simp: Let_def split: if_splits)
qed

lemma ParseDecimal_wellformed:
  assumes "ParseDecimal s = Inr d"
  shows "Valid d \<and> 0 \<le> denominatorDigits d"
proof -
  define st where "st = (if hd s = CHR ''+'' then (1::nat, zeroDecimal)
      else if hd s = CHR ''-'' then (1, zeroDecimal\<lparr>Negative := True\<rparr>)
      else (0, zeroDecimal))"
  have z: "denominatorDigits (snd st) = 0" by (simp add: st_def zeroDecimal_def)
  from assms have P: "(case parseLoop (drop (fst st) s) (snd st) (- 1) of
              Inl e \<Rightarrow> Inl e
            | Inr (decimal, dd) \<Rightarrow>
                if Valid decimal then
                  (let decimal =
                         (if numerator decimal = 0 \<and> denominator decimal = 0 \<and> Negative decimal
                          then decimal\<lparr>Negative := False\<rparr> else decimal);
                       decimal =
                         (if dd \<noteq> -1
                          then decimal\<lparr>denominatorDigits := dd\<rparr> else decimal)
                   in Inr decimal)
                else Inl ErrSyntax) = Inr d"
    by (simp add: ParseDecimal_def st_def case_prod_beta split: if_splits)
  show ?thesis
  proof (cases "parseLoop (drop (fst st) s) (snd st) (- 1)")
    case (Inl e)
    with P show ?thesis by simp
  next
    case (Inr r)
    obtain dec' dd' where r: "r = (dec', dd')" by (cases r)
    from parseLoop_digits [of "drop (fst st) s" "snd st" "- 1" dec' dd'] Inr r z
    have i: "- 1 \<le> dd'" "denominatorDigits dec' = 0" by simp_all
    from P Inr r i show ?thesis by (auto simp: Let_def split: if_splits)
  qed
qed

section \<open>The overflow check of the parser\<close>

text \<open>
  Claim C4: for every input in which folding a digit into the active accumulator
  (\<open>acc = acc * 10 + digit\<close>) would exceed the unsigned 64-bit maximum, \<^verbatim>\<open>ParseDecimal\<close>
  returns a range error and never a Decimal holding the wrapped value.

  The code tests \<^verbatim>\<open>newN < *n\<close>. A product by ten can wrap around and still land above
  the old value: after the nineteen digits \<open>3000000000000000000\<close> the accumulator holds
  \<open>3 * 10 ^ 18\<close>; folding one more \<open>0\<close> exceeds \<open>2 ^ 64 - 1\<close>, the wrapped value
  \<open>11553255926290448384\<close> is larger than \<open>3 * 10 ^ 18\<close>, the test does not fire, and
  \<^verbatim>\<open>ParseDecimal\<close> returns a valid Decimal with the wrapped integer part.
\<close>

theorem ParseDecimal_wrap_undetected:
  "unat (3000000000000000000 :: uint64) * 10 + 0 > 18446744073709551615
   \<and> ParseDecimal ''3000000000000000000'' = Inr (mkDecimal False 3000000000000000000 0 0)
   \<and> ParseDecimal ''30000000000000000000'' = Inr (mkDecimal False 11553255926290448384 0 0)"
proof -
  have 1: "unat (3000000000000000000 :: uint64) * 10 + 0 > 18446744073709551615" by simp
  have 2: "ParseDecimal ''3000000000000000000'' = Inr (mkDecimal False 3000000000000000000 0 0)"
    by code_simp
  have 3: "ParseDecimal ''30000000000000000000'' = Inr (mkDecimal False 11553255926290448384 0 0)"
    by code_simp
  from 1 2 3 show ?thesis by blast
qed

section \<open>Errors leave the receiver as it was\<close>

text \<open>
  Claim C5: whenever \<^verbatim>\<open>a.Add(b)\<close> or \<^verbatim>\<open>a.Sub(b)\<close> returns an error (not valid, or
  range), every field of the receiver \<open>a\<close> is what it was before the call. Here \<open>p\<close>
  is the address of \<open>a\<close> and \<open>q\<close> the address of \<open>b\<close>; the two may be the same
  object.
\<close>

theorem error_leaves_receiver:
  "(fst (Add fp p q h) = Failure e \<longrightarrow> snd (Add fp p q h) p = h p)
   \<and> (fst (Sub fp p q h) = Failure e \<longrightarrow> snd (Sub fp p q h) p = h p)"
proof (intro conjI impI)
  assume "fst (Add fp p q h) = Failure e"
  then have "snd (Add fp p q h) = h" by (intro Add_not_Success_heap) simp
  then show "snd (Add fp p q h) p = h p" by simp
next
  assume "fst (Sub fp p q h) = Failure e"
  then show "snd (Sub fp p q h) p = h p" by (rule Sub_Failure_receiver)
qed

text \<open>
  The theorem at two failing calls: \<open>18446744073709551615.5 + 0.5\<close>, where the carry
  overflows the integer part, and \<open>-18446744073709551615.0 - 1.0\<close>, where \<^verbatim>\<open>Sub\<close>
  delegates to \<^verbatim>\<open>Add\<close>.
\<close>

theorem error_leaves_receiver_witness:
  "fst (Add exactFp 0 1 (twoCells (mkDecimal False 18446744073709551615 5 1) (mkDecimal False 0 5 1)))
     = Failure ErrRange
   \<and> snd (Add exactFp 0 1 (twoCells (mkDecimal False 18446744073709551615 5 1) (mkDecimal False 0 5 1))) 0
     = mkDecimal False 18446744073709551615 5 1
   \<and> fst (Sub exactFp 0 1 (twoCells (mkDecimal True 18446744073709551615 0 1) (mkDecimal False 1 0 1)))
     = Failure ErrRange
   \<and> snd (Sub exactFp 0 1 (twoCells (mkDecimal True 18446744073709551615 0 1) (mkDecimal False 1 0 1))) 0
     = mkDecimal True 18446744073709551615 0 1"
proof -
  let ?h = "twoCells (mkDecimal False 18446744073709551615 5 1) (mkDecimal False 0 5 1)"
  let ?k = "twoCells (mkDecimal True 18446744073709551615 0 1) (mkDecimal False 1 0 1)"
  have a: "fst (Add exactFp 0 1 ?h) = Failure ErrRange" by code_simp
  have s: "fst (Sub exactFp 0 1 ?k) = Failure ErrRange" by code_simp
  from a s error_leaves_receiver [of exactFp 0 1 ?h ErrRange]
    error_leaves_receiver [of exactFp 0 1 ?k ErrRange]
  show ?thesis by (simp add: twoCells_def)
qed

section \<open>The argument is left as it was\<close>

text \<open>
  Claim C9: for every pair of Decimal values \<open>a\<close> and \<open>b\<close> and every call
  \<^verbatim>\<open>a.Add(b)\<close> or \<^verbatim>\<open>a.Sub(b)\<close>, whether it succeeds or fails, every field of the
  argument \<open>b\<close> after the call returns equals its value before the call: the sign that
  \<^verbatim>\<open>Add\<close> clears and the sign that \<^verbatim>\<open>Sub\<close> overwrites are both written back. \<open>a\<close>
  and \<open>b\<close> are two objects (\<open>p \<noteq> q\<close>); a call that returns is one that does not
  panic.
\<close>

theorem argument_restored:
  "p \<noteq> q \<Longrightarrow>
     snd (Add fp p q h) q = h q
     \<and> (fst (Sub fp p q h) \<noteq> Panic \<longrightarrow> snd (Sub fp p q h) q = h q)"
  using Add_other [of q p fp q h] Sub_other [of q p fp q h] by blast

text \<open>
  The theorem at \<open>5.25\<close> and \<open>-3.5\<close>: \<^verbatim>\<open>Add\<close> takes the branch that clears both
  signs, and \<^verbatim>\<open>Sub\<close> overwrites the sign of \<open>b\<close> before it delegates.
\<close>

theorem argument_restored_witness:
  "(0::nat) \<noteq> 1
   \<and> snd (Add exactFp 0 1 (twoCells (mkDecimal False 5 25 2) (mkDecimal True 3 5 1))) 1
       = mkDecimal True 3 5 1
   \<and> fst (Sub exactFp 0 1 (twoCells (mkDecimal False 5 25 2) (mkDecimal True 3 5 1))) = Success
   \<and> snd (Sub exactFp 0 1 (twoCells (mkDecimal False 5 25 2) (mkDecimal True 3 5 1))) 1
       = mkDecimal True 3 5 1"
proof -
  let ?h = "twoCells (mkDecimal False 5 25 2) (mkDecimal True 3 5 1)"
  have ne: "(0::nat) \<noteq> 1" by simp
  have s: "fst (Sub exactFp 0 1 ?h) = Success" by code_simp
  from s argument_restored [OF ne, of exactFp ?h] show ?thesis
    by (simp add: twoCells_def)
qed

text \<open>
  With one object as receiver and argument there is no second object to preserve: the
  call \<^verbatim>\<open>a.Add(a)\<close> on \<open>1.5\<close> overwrites it with \<open>3.0\<close>.
\<close>

lemma Add_receiver_as_argument:
  "fst (Add exactFp 0 0 (twoCells (mkDecimal False 1 5 1) zeroDecimal)) = Success
   \<and> snd (Add exactFp 0 0 (twoCells (mkDecimal False 1 5 1) zeroDecimal)) 0
       = mkDecimal False 3 0 1"
  by code_simp

section \<open>The digit count of a result\<close>



section \<open>The carry of Add\<close>

text \<open>
  \<^verbatim>\<open>printedLength\<close> of zero is decided by the integer test at its head; every other value
  goes through the floating-point expression.
\<close>

lemma printedLength_zero: "printedLength fp 0 = 1"
  by (simp add: printedLength_def)

lemma pow10_word_nonzero: "k \<le> 19 \<Longrightarrow> (10::uint64) ^ k \<noteq> 0"
proof -
  assume k: "k \<le> 19"
  have "(10::nat) ^ k \<le> 10 ^ 19" using k by (intro power_increasing) simp_all
  also have "\<dots> < 2 ^ 64" by simp
  finally have lt: "(10::nat) ^ k < 2 ^ 64" .
  have "unat ((10::uint64) ^ k) = unat (of_nat (10 ^ k) :: uint64)" by simp
  also have "\<dots> = 10 ^ k" using lt by (simp only: unat_of_nat len_of_numeral_defs) simp
  finally have "unat ((10::uint64) ^ k) \<noteq> 0" by simp
  then show ?thesis by (metis unat_0)
qed

lemma pow10_exact: "0 \<le> k \<Longrightarrow> k \<le> 19 \<Longrightarrow> pow10 fp k = 10 ^ nat k"
  by (simp add: pow10_def)

lemma update_order:
  fixes r :: Decimal
  shows "r\<lparr>denominatorDigits := k, numerator := n, denominator := d\<rparr>
           = r\<lparr>numerator := n, denominator := d, denominatorDigits := k\<rparr>"
  by (cases r) simp

text \<open>
  When the test of \<^verbatim>\<open>Add\<close> fires, that is when \<^verbatim>\<open>printedLength\<close> of the fractional sum
  exceeds the aligned width, the carry is the one the specification describes. A valid
  Decimal has a digit count that is not negative (\<open>ParseDecimal_wellformed\<close> for a
  parsed one; a result of \<^verbatim>\<open>Add\<close> or \<^verbatim>\<open>Sub\<close> has the \<^verbatim>\<open>printedLength\<close> of its
  fractional part). \<^verbatim>\<open>Add\<close> reaches the carry only when its two bounds checks on the
  stored fields pass, and after the carry it returns a range error when the integer part
  wrapped.
\<close>

lemma Add_carry_step:
  assumes v: "Valid (h p)" "Valid (h q)"
    and sg: "Negative (h p) = Negative (h q)"
    and nn: "0 \<le> denominatorDigits (h p)" "0 \<le> denominatorDigits (h q)"
    and dr: "digitRange fp"
    and ex: "alignedDigits (h p) (h q) < printedLength fp (fractionalSum (h p) (h q))"
  shows "Add fp p q h =
     (if rawSumsWrap (h p) (h q) then (Failure ErrRange, h)
      else if numerator (carried (h p) (h q)) < numerator (h p) + numerator (h q)
        then (Failure ErrRange, h)
      else addCommit fp p h (carried (h p) (h q)))"
proof -
  define k where "k = alignedDigits (h p) (h q)"
  from ex printedLength_range [OF dr, of "fractionalSum (h p) (h q)"]
  have k19: "k \<le> 19" by (simp add: k_def)
  have k0: "0 \<le> k" using nn by (simp add: k_def alignedDigits_def)
  have nz: "(10::uint64) ^ nat k \<noteq> 0" using k19 k0 by (intro pow10_word_nonzero) simp
  have pk: "pow10 fp k = 10 ^ nat k" using k0 k19 by (rule pow10_exact)
  show ?thesis
  proof (cases "denominatorDigits (h p) > denominatorDigits (h q)")
    case True
    then have kp: "k = denominatorDigits (h p)" by (simp add: k_def alignedDigits_def)
    have d: "pow10 fp (denominatorDigits (h p) - denominatorDigits (h q))
               = 10 ^ nat (denominatorDigits (h p) - denominatorDigits (h q))"
      using True nn k19 kp by (intro pow10_exact) simp_all
    have fs: "fractionalSum (h p) (h q) = denominator (h p)
        + denominator (h q) * 10 ^ nat (denominatorDigits (h p) - denominatorDigits (h q))"
      using True by (simp add: fractionalSum_def alignedDigits_def)
    from ex have ex': "denominatorDigits (h p) < printedLength fp (denominator (h p)
        + denominator (h q) * 10 ^ nat (denominatorDigits (h p) - denominatorDigits (h q)))"
      using fs kp k_def by simp
    show ?thesis
      using v sg True d fs ex' nz pk kp
      by (simp add: Add_def addSameSign_def Let_def rawSumsWrap_def carried_def k_def [symmetric])
  next
    case False
    show ?thesis
    proof (cases "denominatorDigits (h q) > denominatorDigits (h p)")
      case True
      then have kq: "k = denominatorDigits (h q)" by (simp add: k_def alignedDigits_def)
      have d: "pow10 fp (denominatorDigits (h q) - denominatorDigits (h p))
                 = 10 ^ nat (denominatorDigits (h q) - denominatorDigits (h p))"
        using True nn k19 kq by (intro pow10_exact) simp_all
      have fs: "fractionalSum (h p) (h q) = denominator (h p)
          * 10 ^ nat (denominatorDigits (h q) - denominatorDigits (h p)) + denominator (h q)"
        using True by (simp add: fractionalSum_def alignedDigits_def)
      from ex have ex': "denominatorDigits (h q) < printedLength fp (denominator (h p)
          * 10 ^ nat (denominatorDigits (h q) - denominatorDigits (h p)) + denominator (h q))"
        using fs kq k_def by simp
      show ?thesis
        using v sg True False d fs ex' nz pk kq
        by (simp add: Add_def addSameSign_def Let_def rawSumsWrap_def carried_def
            k_def [symmetric] update_order)
    next
      case F2: False
      with False have eq: "denominatorDigits (h q) = denominatorDigits (h p)" by simp
      then have kp: "k = denominatorDigits (h p)" by (simp add: k_def alignedDigits_def)
      have fs: "fractionalSum (h p) (h q) = denominator (h p) + denominator (h q)"
        using eq by (simp add: fractionalSum_def alignedDigits_def)
      from ex have ex': "denominatorDigits (h p) < printedLength fp (denominator (h p) + denominator (h q))"
        using fs kp k_def by simp
      show ?thesis
        using v sg eq fs ex' nz pk kp
        by (simp add: Add_def addSameSign_def Let_def rawSumsWrap_def carried_def k_def [symmetric])
    qed
  qed
qed

text \<open>
  The two examples of the specification, \<open>111.555 + 111.666\<close> and
  \<open>111.555 + 111.645\<close>, evaluated with the code's own \<^verbatim>\<open>printedLength\<close>.
\<close>

lemma Add_carry_examples:
  "String (snd (Add goFp 0 1
             (twoCells (mkDecimal False 111 555 3) (mkDecimal False 111 666 3))) 0)
     = ''223.221''
   \<and> String (snd (Add goFp 0 1
                (twoCells (mkDecimal False 111 555 3) (mkDecimal False 111 645 3))) 0)
       = ''223.2''"
proof -
  have 1: "String (snd (Add goFp 0 1
             (twoCells (mkDecimal False 111 555 3) (mkDecimal False 111 666 3))) 0)
     = ''223.221''" by code_simp
  have 2: "String (snd (Add goFp 0 1
                (twoCells (mkDecimal False 111 555 3) (mkDecimal False 111 645 3))) 0)
       = ''223.2''" by code_simp
  from 1 2 show ?thesis by blast
qed

text \<open>
  Claim C3: for every pair of valid same-sign Decimal values added by \<^verbatim>\<open>Add\<close>, when the
  printed length of the fractional sum exceeds the aligned digit count, the carry step
  adds \<open>fractional_sum / 10 ^ aligned\<close> into the integer part and replaces the
  fractional part with \<open>fractional_sum % 10 ^ aligned\<close>; in particular
  \<open>111.555 + 111.666\<close> renders as \<open>223.221\<close> and \<open>111.555 + 111.645\<close> as
  \<open>223.2\<close>.

  The two examples hold, and the arithmetic of the carry is right whenever the test of
  the code fires (\<open>Add_carry_step\<close>). The test itself is \<^verbatim>\<open>printedLength\<close> of the sum
  against the aligned width, and \<^verbatim>\<open>printedLength\<close> is not the printed length: for
  \<open>0.500000000000000 + 0.500000000000000\<close> the aligned width is 15, the fractional sum
  is \<open>10 ^ 15\<close>, which prints with 16 digits, and \<^verbatim>\<open>printedLength\<close> returns 15. The
  carry is skipped, the sum is simplified to 1, and \<^verbatim>\<open>Add\<close> stores \<open>0.1\<close> where the
  carry gives \<open>1.0\<close>.
\<close>

theorem Add_carry_skipped:
  "ParseDecimal ''0.500000000000000'' = Inr (mkDecimal False 0 500000000000000 15)
   \<and> alignedDigits (mkDecimal False 0 500000000000000 15) (mkDecimal False 0 500000000000000 15)
       = 15
   \<and> fractionalSum (mkDecimal False 0 500000000000000 15) (mkDecimal False 0 500000000000000 15)
       = 1000000000000000
   \<and> fmtD 1000000000000000 = ''1000000000000000''
   \<and> int (length (fmtD 1000000000000000)) = 16
   \<and> printedLength goFp 1000000000000000 = 15
   \<and> carried (mkDecimal False 0 500000000000000 15) (mkDecimal False 0 500000000000000 15)
       = mkDecimal False 1 0 15
   \<and> fst (Add goFp 0 1 (twoCells (mkDecimal False 0 500000000000000 15)
                                   (mkDecimal False 0 500000000000000 15))) = Success
   \<and> snd (Add goFp 0 1 (twoCells (mkDecimal False 0 500000000000000 15)
                                   (mkDecimal False 0 500000000000000 15))) 0
       = mkDecimal False 0 1 1
   \<and> String (mkDecimal False 0 1 1) = ''0.1''
   \<and> valueOf (mkDecimal False 0 1 1)
       \<noteq> valueOf (mkDecimal False 0 500000000000000 15)
           + valueOf (mkDecimal False 0 500000000000000 15)
   \<and> valueOf (mkDecimal False 1 0 15)
       = valueOf (mkDecimal False 0 500000000000000 15)
           + valueOf (mkDecimal False 0 500000000000000 15)"
proof -
  let ?a = "mkDecimal False 0 500000000000000 15"
  have 1: "ParseDecimal ''0.500000000000000'' = Inr ?a" by code_simp
  have 2: "alignedDigits ?a ?a = 15" by code_simp
  have 3: "fractionalSum ?a ?a = 1000000000000000" by code_simp
  have 4: "fmtD 1000000000000000 = ''1000000000000000''" by code_simp
  have 5: "int (length (fmtD 1000000000000000)) = 16" by (simp add: 4)
  have 6: "printedLength goFp 1000000000000000 = 15" by code_simp
  have 7: "carried ?a ?a = mkDecimal False 1 0 15" by code_simp
  have 8: "fst (Add goFp 0 1 (twoCells ?a ?a)) = Success" by code_simp
  have 9: "snd (Add goFp 0 1 (twoCells ?a ?a)) 0 = mkDecimal False 0 1 1" by code_simp
  have 10: "String (mkDecimal False 0 1 1) = ''0.1''" by code_simp
  have 11: "valueOf (mkDecimal False 0 1 1) \<noteq> valueOf ?a + valueOf ?a"
    by (simp add: valueOf_def mkDecimal_def)
  have 12: "valueOf (mkDecimal False 1 0 15) = valueOf ?a + valueOf ?a"
    by (simp add: valueOf_def mkDecimal_def)
  from 1 2 3 4 5 6 7 8 9 10 11 12 show ?thesis by blast
qed

section \<open>printedLength against the number of digits\<close>

text \<open>
  The conversion to \<^verbatim>\<open>float64\<close> keeps 53 bits: \<open>10 ^ 19 - 1\<close> and \<open>10 ^ 19\<close> become
  the same float.
\<close>

lemma float64_collision: "toFloat64 9999999999999999999 = toFloat64 10000000000000000000"
  by code_simp

text \<open>
  Claim C7: for every unsigned 64-bit integer \<open>n\<close>, \<^verbatim>\<open>printedLength(n)\<close> equals the
  number of base-10 digits needed to print \<open>n\<close>, with \<^verbatim>\<open>printedLength(0) = 1\<close>.

  \<^verbatim>\<open>printedLength\<close> of a non-zero \<open>n\<close> depends on \<open>n\<close> through \<^verbatim>\<open>float64(n)\<close> only.
  Whatever the library computes from that float, it computes the same for
  \<open>10 ^ 19 - 1\<close> and \<open>10 ^ 19\<close>, which have 19 and 20 digits: the claim fails.
\<close>

theorem printedLength_miscounts:
  assumes "\<forall>n. log10len fp n = g (toFloat64 n)"
  shows "\<not> (\<forall>n. printedLength fp n = int (length (fmtD n)))"
proof
  assume a: "\<forall>n. printedLength fp n = int (length (fmtD n))"
  have "printedLength fp 9999999999999999999 = printedLength fp 10000000000000000000"
    using assms float64_collision by (simp add: printedLength_def)
  with a have e: "int (length (fmtD 9999999999999999999))
      = int (length (fmtD 10000000000000000000))"
    by simp
  have 1: "fmtD 9999999999999999999 = ''9999999999999999999''" by code_simp
  have 2: "fmtD 10000000000000000000 = ''10000000000000000000''" by code_simp
  from e show False by (simp add: 1 2)
qed

text \<open>
  The theorem at the code's own expression, with the values it returns: 15 for
  \<open>10 ^ 15\<close>, which has 16 digits, and 20 for \<open>10 ^ 19 - 1\<close>, which has 19.
\<close>

theorem printedLength_miscounts_witness:
  "(\<forall>n. log10len goFp n = (\<lambda>x. Floor (Log10 x) + 1) (toFloat64 n))
   \<and> \<not> (\<forall>n. printedLength goFp n = int (length (fmtD n)))
   \<and> printedLength goFp 1000000000000000 = 15
   \<and> int (length (fmtD 1000000000000000)) = 16
   \<and> printedLength goFp 9999999999999999999 = 20
   \<and> int (length (fmtD 9999999999999999999)) = 19"
proof -
  have h: "\<forall>n. log10len goFp n = (\<lambda>x. Floor (Log10 x) + 1) (toFloat64 n)"
    by (simp add: goFp_def goLog10Len_def)
  have 1: "printedLength goFp 1000000000000000 = 15" by code_simp
  have 2: "fmtD 1000000000000000 = ''1000000000000000''" by code_simp
  have 3: "printedLength goFp 9999999999999999999 = 20" by code_simp
  have 4: "fmtD 9999999999999999999 = ''9999999999999999999''" by code_simp
  from printedLength_miscounts [OF h] h 1 3 show ?thesis by (simp add: 2 4)
qed

section \<open>Inputs on which the arithmetic is not exact\<close>

text \<open>
  The evaluations of this section use the exact digit count for \<open>log10len\<close>; every
  value whose printed length they need is far from a power of ten, and the code's own
  expression gives the same stored results (\<open>inexact_results_with_goFp\<close>, at the end of
  the section).
\<close>

text \<open>
  Claim C1: for valid \<open>a\<close> and \<open>b\<close> of equal sign whose exact difference is
  representable, \<^verbatim>\<open>a.Sub(b)\<close> succeeds and sets \<open>a\<close> to the exact value of \<open>a - b\<close>,
  aligning the widths and borrowing from the integer part when the fractional subtraction
  would underflow, and computing \<open>b - a\<close> with the sign flipped when \<open>a < b\<close>.

  The code does not: in the branch \<open>a \<ge> b\<close> it subtracts the stored fractional part of
  \<open>b\<close>, not the aligned one, so \<open>222.222999 - 111.111\<close> gives \<open>111.222888\<close> where
  the difference is \<open>111.111999\<close>; in the branch \<open>a < b\<close> it has no borrow, so
  \<open>1.5 - 2.3\<close> gives integer part 1 and the wrapped fractional part
  \<open>18446744073709551614\<close> where the difference is \<open>-0.8\<close>.
\<close>

theorem Sub_same_sign_inexact:
  "ParseDecimal ''222.222999'' = Inr (mkDecimal False 222 222999 6)
   \<and> ParseDecimal ''111.111'' = Inr (mkDecimal False 111 111 3)
   \<and> fst (Sub exactFp 0 1 (twoCells (mkDecimal False 222 222999 6) (mkDecimal False 111 111 3)))
       = Success
   \<and> snd (Sub exactFp 0 1 (twoCells (mkDecimal False 222 222999 6) (mkDecimal False 111 111 3))) 0
       = mkDecimal False 111 222888 6
   \<and> valueOf (mkDecimal False 111 222888 6)
       \<noteq> valueOf (mkDecimal False 222 222999 6) - valueOf (mkDecimal False 111 111 3)
   \<and> valueOf (mkDecimal False 111 111999 6)
       = valueOf (mkDecimal False 222 222999 6) - valueOf (mkDecimal False 111 111 3)
   \<and> ParseDecimal ''1.5'' = Inr (mkDecimal False 1 5 1)
   \<and> ParseDecimal ''2.3'' = Inr (mkDecimal False 2 3 1)
   \<and> fst (Sub exactFp 0 1 (twoCells (mkDecimal False 1 5 1) (mkDecimal False 2 3 1))) = Success
   \<and> snd (Sub exactFp 0 1 (twoCells (mkDecimal False 1 5 1) (mkDecimal False 2 3 1))) 0
       = mkDecimal True 1 18446744073709551614 20
   \<and> valueOf (mkDecimal True 1 18446744073709551614 20)
       \<noteq> valueOf (mkDecimal False 1 5 1) - valueOf (mkDecimal False 2 3 1)
   \<and> valueOf (mkDecimal True 0 8 1)
       = valueOf (mkDecimal False 1 5 1) - valueOf (mkDecimal False 2 3 1)"
proof -
  have 1: "ParseDecimal ''222.222999'' = Inr (mkDecimal False 222 222999 6)" by code_simp
  have 2: "ParseDecimal ''111.111'' = Inr (mkDecimal False 111 111 3)" by code_simp
  have 3: "fst (Sub exactFp 0 1 (twoCells (mkDecimal False 222 222999 6) (mkDecimal False 111 111 3)))
       = Success" by code_simp
  have 4: "snd (Sub exactFp 0 1 (twoCells (mkDecimal False 222 222999 6) (mkDecimal False 111 111 3))) 0
       = mkDecimal False 111 222888 6" by code_simp
  have 5: "valueOf (mkDecimal False 111 222888 6)
       \<noteq> valueOf (mkDecimal False 222 222999 6) - valueOf (mkDecimal False 111 111 3)"
    by (simp add: valueOf_def mkDecimal_def)
  have 6: "valueOf (mkDecimal False 111 111999 6)
       = valueOf (mkDecimal False 222 222999 6) - valueOf (mkDecimal False 111 111 3)"
    by (simp add: valueOf_def mkDecimal_def)
  have 7: "ParseDecimal ''1.5'' = Inr (mkDecimal False 1 5 1)" by code_simp
  have 8: "ParseDecimal ''2.3'' = Inr (mkDecimal False 2 3 1)" by code_simp
  have 9: "fst (Sub exactFp 0 1 (twoCells (mkDecimal False 1 5 1) (mkDecimal False 2 3 1))) = Success"
    by code_simp
  have 10: "snd (Sub exactFp 0 1 (twoCells (mkDecimal False 1 5 1) (mkDecimal False 2 3 1))) 0
       = mkDecimal True 1 18446744073709551614 20" by code_simp
  have 11: "valueOf (mkDecimal True 1 18446744073709551614 20)
       \<noteq> valueOf (mkDecimal False 1 5 1) - valueOf (mkDecimal False 2 3 1)"
    by (simp add: valueOf_def mkDecimal_def)
  have 12: "valueOf (mkDecimal True 0 8 1)
       = valueOf (mkDecimal False 1 5 1) - valueOf (mkDecimal False 2 3 1)"
    by (simp add: valueOf_def mkDecimal_def)
  from 1 2 3 4 5 6 7 8 9 10 11 12 show ?thesis by blast
qed

text \<open>
  Claim C2: for valid \<open>a\<close> and \<open>b\<close> of differing signs whose exact sum is
  representable, \<^verbatim>\<open>a.Add(b)\<close> succeeds and sets \<open>a\<close> to the exact value of \<open>a + b\<close>:
  the smaller magnitude is subtracted from the larger, fractional then integer part, with
  propagation across the decimal point.

  The branch of \<^verbatim>\<open>Add\<close> for differing signs subtracts the two parts independently and
  has no borrow: \<open>2.1 + (-1.9)\<close> gives integer part 1 and the wrapped fractional part
  \<open>18446744073709551608\<close> where the sum is \<open>0.2\<close>.
\<close>

theorem Add_mixed_sign_inexact:
  "ParseDecimal ''2.1'' = Inr (mkDecimal False 2 1 1)
   \<and> ParseDecimal ''-1.9'' = Inr (mkDecimal True 1 9 1)
   \<and> fst (Add exactFp 0 1 (twoCells (mkDecimal False 2 1 1) (mkDecimal True 1 9 1))) = Success
   \<and> snd (Add exactFp 0 1 (twoCells (mkDecimal False 2 1 1) (mkDecimal True 1 9 1))) 0
       = mkDecimal False 1 18446744073709551608 20
   \<and> valueOf (mkDecimal False 1 18446744073709551608 20)
       \<noteq> valueOf (mkDecimal False 2 1 1) + valueOf (mkDecimal True 1 9 1)
   \<and> valueOf (mkDecimal False 0 2 1)
       = valueOf (mkDecimal False 2 1 1) + valueOf (mkDecimal True 1 9 1)"
proof -
  have 1: "ParseDecimal ''2.1'' = Inr (mkDecimal False 2 1 1)" by code_simp
  have 2: "ParseDecimal ''-1.9'' = Inr (mkDecimal True 1 9 1)" by code_simp
  have 3: "fst (Add exactFp 0 1 (twoCells (mkDecimal False 2 1 1) (mkDecimal True 1 9 1))) = Success"
    by code_simp
  have 4: "snd (Add exactFp 0 1 (twoCells (mkDecimal False 2 1 1) (mkDecimal True 1 9 1))) 0
       = mkDecimal False 1 18446744073709551608 20" by code_simp
  have 5: "valueOf (mkDecimal False 1 18446744073709551608 20)
       \<noteq> valueOf (mkDecimal False 2 1 1) + valueOf (mkDecimal True 1 9 1)"
    by (simp add: valueOf_def mkDecimal_def)
  have 6: "valueOf (mkDecimal False 0 2 1)
       = valueOf (mkDecimal False 2 1 1) + valueOf (mkDecimal True 1 9 1)"
    by (simp add: valueOf_def mkDecimal_def)
  from 1 2 3 4 5 6 show ?thesis by blast
qed

text \<open>
  Claim C6: if the alignment scaling, or the integer or fractional sum after alignment,
  would exceed the unsigned 64-bit maximum, \<^verbatim>\<open>a.Add(b)\<close> returns a range error rather
  than computing with a wrapped intermediate value.

  The bounds checks of \<^verbatim>\<open>Add\<close> look at the stored fractional parts, before alignment.
  For \<open>0.9999999999999999999 + 0.9\<close> the stored sum \<open>9999999999999999999 + 9\<close> fits,
  the aligned sum \<open>9999999999999999999 + 9000000000000000000\<close> does not, and \<^verbatim>\<open>Add\<close>
  succeeds with the wrapped fractional part \<open>553255926290448383\<close>. For
  \<open>0.00000000000000000001 + 0.9\<close> the scaling \<open>9 * 10 ^ 19\<close> itself wraps, and
  \<^verbatim>\<open>Add\<close> succeeds again.
\<close>

theorem Add_aligned_sum_wraps:
  "ParseDecimal ''0.9999999999999999999'' = Inr (mkDecimal False 0 9999999999999999999 19)
   \<and> ParseDecimal ''0.9'' = Inr (mkDecimal False 0 9 1)
   \<and> uint (9 * pow10 exactFp (19 - 1)) = 9000000000000000000
   \<and> uint (9999999999999999999 :: uint64) + uint (9 * pow10 exactFp (19 - 1))
       > 18446744073709551615
   \<and> fst (Add exactFp 0 1
            (twoCells (mkDecimal False 0 9999999999999999999 19) (mkDecimal False 0 9 1)))
       = Success
   \<and> snd (Add exactFp 0 1
            (twoCells (mkDecimal False 0 9999999999999999999 19) (mkDecimal False 0 9 1))) 0
       = mkDecimal False 0 553255926290448383 18
   \<and> ParseDecimal ''0.00000000000000000001'' = Inr (mkDecimal False 0 1 20)
   \<and> uint (9 :: uint64) * uint (pow10 exactFp (20 - 1)) > 18446744073709551615
   \<and> fst (Add exactFp 0 1 (twoCells (mkDecimal False 0 1 20) (mkDecimal False 0 9 1))) = Success
   \<and> snd (Add exactFp 0 1 (twoCells (mkDecimal False 0 1 20) (mkDecimal False 0 9 1))) 0
       = mkDecimal False 0 16213023705161793537 20"
proof -
  have 1: "ParseDecimal ''0.9999999999999999999'' = Inr (mkDecimal False 0 9999999999999999999 19)"
    by code_simp
  have 2: "ParseDecimal ''0.9'' = Inr (mkDecimal False 0 9 1)" by code_simp
  have 3: "uint (9 * pow10 exactFp (19 - 1)) = 9000000000000000000" by code_simp
  have 4: "uint (9999999999999999999 :: uint64) + uint (9 * pow10 exactFp (19 - 1))
       > 18446744073709551615" by code_simp
  have 5: "fst (Add exactFp 0 1
            (twoCells (mkDecimal False 0 9999999999999999999 19) (mkDecimal False 0 9 1)))
       = Success" by code_simp
  have 6: "snd (Add exactFp 0 1
            (twoCells (mkDecimal False 0 9999999999999999999 19) (mkDecimal False 0 9 1))) 0
       = mkDecimal False 0 553255926290448383 18" by code_simp
  have 7: "ParseDecimal ''0.00000000000000000001'' = Inr (mkDecimal False 0 1 20)" by code_simp
  have 8: "uint (9 :: uint64) * uint (pow10 exactFp (20 - 1)) > 18446744073709551615"
    by code_simp
  have 9: "fst (Add exactFp 0 1 (twoCells (mkDecimal False 0 1 20) (mkDecimal False 0 9 1))) = Success"
    by code_simp
  have 10: "snd (Add exactFp 0 1 (twoCells (mkDecimal False 0 1 20) (mkDecimal False 0 9 1))) 0
       = mkDecimal False 0 16213023705161793537 20" by code_simp
  from 1 2 3 4 5 6 7 8 9 10 show ?thesis by blast
qed

text \<open>
  Claim C8: for every valid \<open>a\<close> and the zero obtained by parsing \<open>0\<close>,
  \<^verbatim>\<open>a.Add(zero)\<close> succeeds and leaves \<open>a\<close> equal to its prior value: same sign, same
  integer part, same fractional part and digit count, except for the stripping of
  trailing fractional zeros.

  \<^verbatim>\<open>Add\<close> ends by storing the printed length of the fractional part as its digit count.
  For \<open>a = 1.05\<close> the fractional part 5 had digit count 2 and gets digit count 1:
  \<open>a\<close> now renders as \<open>1.5\<close>, a different number.
\<close>

theorem Add_zero_drops_leading_zero:
  "ParseDecimal ''1.05'' = Inr (mkDecimal False 1 5 2)
   \<and> ParseDecimal ''0'' = Inr (mkDecimal False 0 0 0)
   \<and> fst (Add exactFp 0 1 (twoCells (mkDecimal False 1 5 2) (mkDecimal False 0 0 0))) = Success
   \<and> snd (Add exactFp 0 1 (twoCells (mkDecimal False 1 5 2) (mkDecimal False 0 0 0))) 0
       = mkDecimal False 1 5 1
   \<and> String (mkDecimal False 1 5 2) = ''1.05''
   \<and> String (mkDecimal False 1 5 1) = ''1.5''
   \<and> valueOf (mkDecimal False 1 5 1) \<noteq> valueOf (mkDecimal False 1 5 2)"
proof -
  have 1: "ParseDecimal ''1.05'' = Inr (mkDecimal False 1 5 2)" by code_simp
  have 2: "ParseDecimal ''0'' = Inr (mkDecimal False 0 0 0)" by code_simp
  have 3: "fst (Add exactFp 0 1 (twoCells (mkDecimal False 1 5 2) (mkDecimal False 0 0 0))) = Success"
    by code_simp
  have 4: "snd (Add exactFp 0 1 (twoCells (mkDecimal False 1 5 2) (mkDecimal False 0 0 0))) 0
       = mkDecimal False 1 5 1" by code_simp
  have 5: "String (mkDecimal False 1 5 2) = ''1.05''" by code_simp
  have 6: "String (mkDecimal False 1 5 1) = ''1.5''" by code_simp
  have 7: "valueOf (mkDecimal False 1 5 1) \<noteq> valueOf (mkDecimal False 1 5 2)"
    by (simp add: valueOf_def mkDecimal_def)
  from 1 2 3 4 5 6 7 show ?thesis by blast
qed

text \<open>
  The results of this section with the code's own \<^verbatim>\<open>printedLength\<close>: the same integer
  parts, fractional parts and widths are stored.
\<close>

lemma inexact_results_with_goFp:
  "snd (Sub goFp 0 1 (twoCells (mkDecimal False 222 222999 6) (mkDecimal False 111 111 3))) 0
     = mkDecimal False 111 222888 6
   \<and> snd (Sub goFp 0 1 (twoCells (mkDecimal False 1 5 1) (mkDecimal False 2 3 1))) 0
       = mkDecimal True 1 18446744073709551614 20
   \<and> snd (Add goFp 0 1 (twoCells (mkDecimal False 2 1 1) (mkDecimal True 1 9 1))) 0
       = mkDecimal False 1 18446744073709551608 20
   \<and> snd (Add goFp 0 1
            (twoCells (mkDecimal False 0 9999999999999999999 19) (mkDecimal False 0 9 1))) 0
       = mkDecimal False 0 553255926290448383 18
   \<and> snd (Add goFp 0 1 (twoCells (mkDecimal False 0 1 20) (mkDecimal False 0 9 1))) 0
       = mkDecimal False 0 16213023705161793537 20
   \<and> snd (Add goFp 0 1 (twoCells (mkDecimal False 1 5 2) (mkDecimal False 0 0 0))) 0
       = mkDecimal False 1 5 1"
proof -
  have 1: "snd (Sub goFp 0 1 (twoCells (mkDecimal False 222 222999 6) (mkDecimal False 111 111 3))) 0
     = mkDecimal False 111 222888 6" by code_simp
  have 2: "snd (Sub goFp 0 1 (twoCells (mkDecimal False 1 5 1) (mkDecimal False 2 3 1))) 0
       = mkDecimal True 1 18446744073709551614 20" by code_simp
  have 3: "snd (Add goFp 0 1 (twoCells (mkDecimal False 2 1 1) (mkDecimal True 1 9 1))) 0
       = mkDecimal False 1 18446744073709551608 20" by code_simp
  have 4: "snd (Add goFp 0 1
            (twoCells (mkDecimal False 0 9999999999999999999 19) (mkDecimal False 0 9 1))) 0
       = mkDecimal False 0 553255926290448383 18" by code_simp
  have 5: "snd (Add goFp 0 1 (twoCells (mkDecimal False 0 1 20) (mkDecimal False 0 9 1))) 0
       = mkDecimal False 0 16213023705161793537 20" by code_simp
  have 6: "snd (Add goFp 0 1 (twoCells (mkDecimal False 1 5 2) (mkDecimal False 0 0 0))) 0
       = mkDecimal False 1 5 1" by code_simp
  from 1 2 3 4 5 6 show ?thesis by blast
qed

text \<open>The inputs of the witnesses above, with the code's own \<^verbatim>\<open>printedLength\<close>.\<close>

lemma witness_results_with_goFp:
  "fst (Add goFp 0 1 (twoCells (mkDecimal False 18446744073709551615 5 1) (mkDecimal False 0 5 1)))
     = Failure ErrRange
   \<and> fst (Sub goFp 0 1 (twoCells (mkDecimal True 18446744073709551615 0 1) (mkDecimal False 1 0 1)))
       = Failure ErrRange
   \<and> fst (Sub goFp 0 1 (twoCells (mkDecimal False 5 25 2) (mkDecimal True 3 5 1))) = Success
   \<and> snd (Add goFp 0 1 (twoCells (mkDecimal False 1 5 2) (mkDecimal False 1 1 2))) 0
       = mkDecimal False 2 6 1
   \<and> snd (Sub goFp 0 1 (twoCells (mkDecimal False 2 5 1) (mkDecimal False 1 5 1))) 0
       = mkDecimal False 1 0 1
   \<and> snd (Add goFp 0 0 (twoCells (mkDecimal False 1 5 1) zeroDecimal)) 0
       = mkDecimal False 3 0 1"
proof -
  have 1: "fst (Add goFp 0 1
              (twoCells (mkDecimal False 18446744073709551615 5 1) (mkDecimal False 0 5 1)))
     = Failure ErrRange" by code_simp
  have 2: "fst (Sub goFp 0 1
              (twoCells (mkDecimal True 18446744073709551615 0 1) (mkDecimal False 1 0 1)))
     = Failure ErrRange" by code_simp
  have 3: "fst (Sub goFp 0 1 (twoCells (mkDecimal False 5 25 2) (mkDecimal True 3 5 1))) = Success"
    by code_simp
  have 4: "snd (Add goFp 0 1 (twoCells (mkDecimal False 1 5 2) (mkDecimal False 1 1 2))) 0
       = mkDecimal False 2 6 1" by code_simp
  have 5: "snd (Sub goFp 0 1 (twoCells (mkDecimal False 2 5 1) (mkDecimal False 1 5 1))) 0
       = mkDecimal False 1 0 1" by code_simp
  have 6: "snd (Add goFp 0 0 (twoCells (mkDecimal False 1 5 1) zeroDecimal)) 0
       = mkDecimal False 3 0 1" by code_simp
  from 1 2 3 4 5 6 show ?thesis by blast
qed

end
